theory Spec2Isabelle
  imports Complex_Main "HOL-Library.Word"
begin

section \<open>The memory store of \<^verbatim>\<open>core/memory/diffmem_integration.py\<close>\<close>

text \<open>
  A shallow embedding of \<^verbatim>\<open>MemoryEntry\<close> and \<^verbatim>\<open>DiffMemManager\<close>.
  Python floats are modelled as reals (no NaN, no infinity, no rounding), Python strings
  as lists of Unicode code points, bytes as 8-bit words, and every exception that can
  leave a method as a value of \<open>error\<close>.  The libraries the module calls
  (\<^verbatim>\<open>hashlib.sha256\<close>, \<^verbatim>\<open>zlib\<close>, \<^verbatim>\<open>sklearn.cluster.DBSCAN\<close>, the
  sentence-transformers model) are parameters of the functions that call them; the clock
  \<^verbatim>\<open>time.time()\<close> is the parameter \<open>now\<close>.
\<close>

subsection \<open>Data model\<close>

type_synonym str = "nat list"
type_synonym byte = "8 word"
type_synonym vector = "real list"

datatype error = ValueError | IndexError | UnicodeEncodeError | UnicodeDecodeError | ZlibError

record MemoryEntry =
  content :: str
  timestamp :: real
  importance :: real
  access_count :: int
  last_accessed :: real
  embedding :: "vector option"
  tags :: "str list"
  source :: str
  compressed :: bool

text \<open>
  The Git repository under \<^verbatim>\<open>git_storage\<close>: the working-tree files, keyed by the integer
  of \<^verbatim>\<open>memory_<int(timestamp * 1000)>.json\<close>, and the commit history, each commit
  with the source and timestamp of its message.
\<close>

record Repo =
  files :: "int \<rightharpoonup> MemoryEntry"
  commits :: "(str \<times> real) list"

record DiffMemManager =
  compression_enabled :: bool
  memories :: "MemoryEntry list"
  repo :: Repo
  embedding_model :: "(str \<Rightarrow> vector option) option"

text \<open>
  \<open>embedding_model\<close> is \<open>None\<close> when no sentence-transformers model was loaded; a loaded
  model maps a text to its vector, or to \<open>None\<close> when \<^verbatim>\<open>encode\<close> raises.
\<close>

definition COMPRESSION_THRESHOLD_BYTES :: nat where
  "COMPRESSION_THRESHOLD_BYTES = 1024"

definition MEMORY_IMPORTANCE_THRESHOLD :: real where
  "MEMORY_IMPORTANCE_THRESHOLD = 1 / 10"

definition MEMORY_DECAY_HALF_LIFE_DAYS :: real where
  "MEMORY_DECAY_HALF_LIFE_DAYS = 30"

definition DBSCAN_DEFAULT_EPS :: real where
  "DBSCAN_DEFAULT_EPS = 3 / 10"

definition DBSCAN_DEFAULT_MIN_SAMPLES :: int where
  "DBSCAN_DEFAULT_MIN_SAMPLES = 2"

text \<open>\<^verbatim>\<open>DiffMemManager.__init__\<close>: an empty index over a repository that is given.\<close>

definition init_manager :: "bool \<Rightarrow> Repo \<Rightarrow> (str \<Rightarrow> vector option) option \<Rightarrow> DiffMemManager" where
  "init_manager compression r model =
     \<lparr>compression_enabled = compression, memories = [], repo = r, embedding_model = model\<rparr>"

subsection \<open>Statistics\<close>

datatype stat = IntStat int | FloatStat real | BoolStat bool

text \<open>
  \<^verbatim>\<open>get_stats\<close> returns a dictionary; the keys are listed in the order of the source.
  \<open>embeddings_available\<close> is the module's global \<^verbatim>\<open>EMBEDDINGS_AVAILABLE\<close>.
\<close>

definition get_stats :: "bool \<Rightarrow> DiffMemManager \<Rightarrow> (string \<times> stat) list" where
  "get_stats embeddings_available st =
     (if memories st = [] then
        [(''total_memories'', IntStat 0),
         (''total_size_bytes'', IntStat 0),
         (''average_importance'', IntStat 0)]
      else
        let total_size = sum_list (map (\<lambda>m. int (length (content m))) (memories st));
            avg_importance = sum_list (map importance (memories st)) / real (length (memories st))
        in [(''total_memories'', IntStat (int (length (memories st)))),
            (''total_size_bytes'', IntStat total_size),
            (''total_size_mb'', FloatStat (real_of_int total_size / (1024 * 1024))),
            (''average_importance'', FloatStat avg_importance),
            (''compression_enabled'', BoolStat (compression_enabled st)),
            (''embeddings_available'', BoolStat embeddings_available)])"

subsection \<open>Text encoding\<close>

text \<open>
  \<^verbatim>\<open>str.encode('utf-8')\<close>: a code point becomes one to four bytes; a surrogate
  (U+D800 to U+DFFF), which a Python string can hold, raises \<^verbatim>\<open>UnicodeEncodeError\<close>
  (\<open>None\<close> here).  A Python string holds no code point above U+10FFFF.
\<close>

definition surrogate :: "nat \<Rightarrow> bool" where
  "surrogate cp = (55296 \<le> cp \<and> cp \<le> 57343)"

definition utf8_encode_cp :: "nat \<Rightarrow> byte list option" where
  "utf8_encode_cp cp =
     (if cp < 128 then Some [of_nat cp]
      else if cp < 2048 then Some [of_nat (192 + cp div 64), of_nat (128 + cp mod 64)]
      else if cp < 65536 then
        (if surrogate cp then None
         else Some [of_nat (224 + cp div 4096), of_nat (128 + cp div 64 mod 64),
                    of_nat (128 + cp mod 64)])
      else if cp < 1114112 then
        Some [of_nat (240 + cp div 262144), of_nat (128 + cp div 4096 mod 64),
              of_nat (128 + cp div 64 mod 64), of_nat (128 + cp mod 64)]
      else None)"

fun utf8_encode :: "str \<Rightarrow> byte list option" where
  "utf8_encode [] = Some []"
| "utf8_encode (cp # cps) =
     (case utf8_encode_cp cp of
        None \<Rightarrow> None
      | Some bs \<Rightarrow> (case utf8_encode cps of None \<Rightarrow> None | Some rest \<Rightarrow> Some (bs @ rest)))"

text \<open>
  \<^verbatim>\<open>bytes.decode('utf-8')\<close>, strict: a continuation byte is 0x80 to 0xBF; overlong
  forms, surrogates and values above U+10FFFF raise \<^verbatim>\<open>UnicodeDecodeError\<close>.
\<close>

definition continuation :: "byte \<Rightarrow> bool" where
  "continuation b = (128 \<le> unat b \<and> unat b < 192)"

fun utf8_decode :: "byte list \<Rightarrow> str option" where
  "utf8_decode [] = Some []"
| "utf8_decode (b0 # bs) =
     (if unat b0 < 128 then
        (case utf8_decode bs of None \<Rightarrow> None | Some cps \<Rightarrow> Some (unat b0 # cps))
      else if 194 \<le> unat b0 \<and> unat b0 < 224 then
        (case bs of
           b1 # r \<Rightarrow>
             (if continuation b1 then
                (case utf8_decode r of
                   None \<Rightarrow> None
                 | Some cps \<Rightarrow> Some (((unat b0 - 192) * 64 + (unat b1 - 128)) # cps))
              else None)
         | _ \<Rightarrow> None)
      else if 224 \<le> unat b0 \<and> unat b0 < 240 then
        (case bs of
           b1 # b2 # r \<Rightarrow>
             (let cp = (unat b0 - 224) * 4096 + (unat b1 - 128) * 64 + (unat b2 - 128)
              in if continuation b1 \<and> continuation b2 \<and> 2048 \<le> cp \<and> \<not> surrogate cp then
                   (case utf8_decode r of None \<Rightarrow> None | Some cps \<Rightarrow> Some (cp # cps))
                 else None)
         | _ \<Rightarrow> None)
      else if 240 \<le> unat b0 \<and> unat b0 < 245 then
        (case bs of
           b1 # b2 # b3 # r \<Rightarrow>
             (let cp = (unat b0 - 240) * 262144 + (unat b1 - 128) * 4096
                       + (unat b2 - 128) * 64 + (unat b3 - 128)
              in if continuation b1 \<and> continuation b2 \<and> continuation b3
                    \<and> 65536 \<le> cp \<and> cp < 1114112 then
                   (case utf8_decode r of None \<Rightarrow> None | Some cps \<Rightarrow> Some (cp # cps))
                 else None)
         | _ \<Rightarrow> None)
      else None)"

subsection \<open>Embedding provider\<close>

definition dot :: "vector \<Rightarrow> vector \<Rightarrow> real" where
  "dot x y = sum_list (map (\<lambda>(a, b). a * b) (zip x y))"

text \<open>\<^verbatim>\<open>np.linalg.norm\<close> of a vector.\<close>

definition l2_norm :: "vector \<Rightarrow> real" where
  "l2_norm x = sqrt (dot x x)"

text \<open>
  The fallback of \<^verbatim>\<open>_generate_embedding\<close>: the SHA-256 digest of the UTF-8 bytes, each
  byte read as an unsigned number, divided by the vector's norm.  \<open>sha256\<close> stands for
  \<^verbatim>\<open>hashlib.sha256(...).digest()\<close>.  On an all-zero digest numpy divides 0 by 0 and
  yields NaN entries; here the division yields 0.
\<close>

definition hash_embedding :: "(byte list \<Rightarrow> byte list) \<Rightarrow> str \<Rightarrow> error + vector" where
  "hash_embedding sha256 txt =
     (case utf8_encode txt of
        None \<Rightarrow> Inl UnicodeEncodeError
      | Some bs \<Rightarrow>
          let hash_bytes = sha256 bs;
              emb = map (\<lambda>b. real (unat b)) hash_bytes
          in Inr (map (\<lambda>v. v / l2_norm emb) emb))"

text \<open>
  \<^verbatim>\<open>_generate_embedding\<close>: the model's vector when a model is loaded and
  \<^verbatim>\<open>encode\<close> returns; the fallback when no model is loaded or \<^verbatim>\<open>encode\<close> raised
  (the exception is logged).
\<close>

definition generate_embedding ::
  "(byte list \<Rightarrow> byte list) \<Rightarrow> DiffMemManager \<Rightarrow> str \<Rightarrow> error + vector" where
  "generate_embedding sha256 st txt =
     (case embedding_model st of
        Some encode \<Rightarrow>
          (case encode txt of
             Some emb \<Rightarrow> Inr emb
           | None \<Rightarrow> hash_embedding sha256 txt)
      | None \<Rightarrow> hash_embedding sha256 txt)"

subsection \<open>Codec\<close>

text \<open>
  \<^verbatim>\<open>_compress_content\<close> and \<^verbatim>\<open>_decompress_content\<close>.  \<open>zlib_compress\<close> stands
  for \<^verbatim>\<open>zlib.compress(_, level=9)\<close> and \<open>zlib_decompress\<close> for
  \<^verbatim>\<open>zlib.decompress\<close>, which raises \<^verbatim>\<open>zlib.error\<close> (\<open>None\<close>) on bytes that
  are no zlib stream.
\<close>

definition compress_content :: "(byte list \<Rightarrow> byte list) \<Rightarrow> str \<Rightarrow> error + byte list" where
  "compress_content zlib_compress cont =
     (case utf8_encode cont of
        None \<Rightarrow> Inl UnicodeEncodeError
      | Some bs \<Rightarrow> Inr (zlib_compress bs))"

definition decompress_content ::
  "(byte list \<Rightarrow> byte list option) \<Rightarrow> byte list \<Rightarrow> error + str" where
  "decompress_content zlib_decompress packed =
     (case zlib_decompress packed of
        None \<Rightarrow> Inl ZlibError
      | Some bs \<Rightarrow>
          (case utf8_decode bs of
             None \<Rightarrow> Inl UnicodeDecodeError
           | Some cont \<Rightarrow> Inr cont))"

text \<open>The contract of the zlib library that the codec relies on.\<close>

definition zlib_lossless ::
  "(byte list \<Rightarrow> byte list) \<Rightarrow> (byte list \<Rightarrow> byte list option) \<Rightarrow> bool" where
  "zlib_lossless zlib_compress zlib_decompress =
     (\<forall>bs. zlib_decompress (zlib_compress bs) = Some bs)"

subsection \<open>Versioned ledger\<close>

text \<open>\<^verbatim>\<open>bytes.hex()\<close>: two lower-case hexadecimal digits for each byte.\<close>

definition hex_digit :: "nat \<Rightarrow> nat" where
  "hex_digit d = (if d < 10 then 48 + d else 87 + d)"

definition hex :: "byte list \<Rightarrow> str" where
  "hex bs = concat (map (\<lambda>b. [hex_digit (unat b div 16), hex_digit (unat b mod 16)]) bs)"

text \<open>Python's \<^verbatim>\<open>int(x)\<close> of a float: truncation towards zero.\<close>

definition py_int :: "real \<Rightarrow> int" where
  "py_int x = (if 0 \<le> x then \<lfloor>x\<rfloor> else \<lceil>x\<rceil>)"

text \<open>
  What the file system and Git do in one call of \<^verbatim>\<open>_save_to_git_sync\<close>: the write of
  the file raises, or the file is written and the staging or the commit raises, or both
  succeed.
\<close>

datatype io_outcome = WriteFails | CommitFails | IoOk

text \<open>
  \<^verbatim>\<open>_save_to_git_sync\<close>.  Every exception inside its \<^verbatim>\<open>try\<close> is caught and
  logged, so the method returns in every case; the state keeps what was done before the
  exception (a write that raises is taken to leave no file).
\<close>

definition save_to_git_sync ::
  "(byte list \<Rightarrow> byte list) \<Rightarrow> io_outcome \<Rightarrow> MemoryEntry \<Rightarrow> DiffMemManager \<Rightarrow> DiffMemManager" where
  "save_to_git_sync zlib_compress io memory st =
     (let filename = py_int (timestamp memory * 1000);
          data =
            (if compression_enabled st \<and> length (content memory) > 1024 then
               (case compress_content zlib_compress (content memory) of
                  Inl e \<Rightarrow> Inl e
                | Inr packed \<Rightarrow> Inr (memory\<lparr>content := hex packed, compressed := True\<rparr>))
             else Inr memory)
      in case data of
           Inl e \<Rightarrow> st
         | Inr d \<Rightarrow>
             (case io of
                WriteFails \<Rightarrow> st
              | CommitFails \<Rightarrow> st\<lparr>repo := (repo st)\<lparr>files := (files (repo st))(filename \<mapsto> d)\<rparr>\<rparr>
              | IoOk \<Rightarrow>
                  st\<lparr>repo := (repo st)\<lparr>files := (files (repo st))(filename \<mapsto> d),
                         commits := commits (repo st) @ [(source memory, timestamp memory)]\<rparr>\<rparr>))"

subsection \<open>Store facade: append\<close>

text \<open>
  \<^verbatim>\<open>add_memory\<close>.  \<open>tgs\<close> is the optional \<^verbatim>\<open>tags\<close> argument (\<^verbatim>\<open>tags or []\<close>);
  both default clock readings of the entry are \<open>now\<close>.  The embedding step is the only
  one that can raise to the caller.
\<close>

definition add_memory ::
  "(byte list \<Rightarrow> byte list) \<Rightarrow> (byte list \<Rightarrow> byte list) \<Rightarrow> io_outcome \<Rightarrow> real \<Rightarrow>
   str \<Rightarrow> real \<Rightarrow> str list option \<Rightarrow> str \<Rightarrow> DiffMemManager \<Rightarrow>
   (error + MemoryEntry) \<times> DiffMemManager" where
  "add_memory sha256 zlib_compress io now cont imp tgs src st =
     (case generate_embedding sha256 st cont of
        Inl e \<Rightarrow> (Inl e, st)
      | Inr emb \<Rightarrow>
          let memory =
                \<lparr>content = cont, timestamp = now, importance = min (max imp 0) 10,
                 access_count = 0, last_accessed = now, embedding = Some emb,
                 tags = (case tgs of None \<Rightarrow> [] | Some ts \<Rightarrow> ts), source = src,
                 compressed = False\<rparr>;
              st1 = st\<lparr>memories := memories st @ [memory]\<rparr>
          in (Inr memory, save_to_git_sync zlib_compress io memory st1))"

subsection \<open>Retrieval engine\<close>

text \<open>
  \<^verbatim>\<open>[m.embedding for m in self.memories if m.embedding]\<close>: the embeddings that are
  neither \<^verbatim>\<open>None\<close> nor the empty list, in the order of the index.
\<close>

definition present_embeddings :: "MemoryEntry list \<Rightarrow> vector list" where
  "present_embeddings ms =
     List.map_filter
       (\<lambda>m. case embedding m of None \<Rightarrow> None | Some v \<Rightarrow> if v = [] then None else Some v) ms"

text \<open>\<^verbatim>\<open>np.array\<close> of a list of rows: rows of different lengths raise \<^verbatim>\<open>ValueError\<close>.\<close>

definition np_array :: "vector list \<Rightarrow> error + vector list" where
  "np_array rows =
     (case rows of
        [] \<Rightarrow> Inr []
      | r # rs \<Rightarrow> if list_all (\<lambda>x. length x = length r) rs then Inr rows else Inl ValueError)"

text \<open>
  \<^verbatim>\<open>sklearn.metrics.pairwise.cosine_similarity(x, Y)[0]\<close> for a single row \<open>x\<close>: the
  rows are divided by their norms (a row of norm 0 is left as it is) and multiplied.  An
  empty \<open>Y\<close>, a row without features or rows of a length other than that of \<open>x\<close>
  raise \<^verbatim>\<open>ValueError\<close>.
\<close>

definition normalize_row :: "vector \<Rightarrow> vector" where
  "normalize_row x = (let n = l2_norm x in map (\<lambda>v. v / (if n = 0 then 1 else n)) x)"

definition cosine :: "vector \<Rightarrow> vector \<Rightarrow> real" where
  "cosine x y = dot (normalize_row x) (normalize_row y)"

definition cosine_similarity :: "vector \<Rightarrow> vector list \<Rightarrow> error + real list" where
  "cosine_similarity x Y =
     (if x \<noteq> [] \<and> Y \<noteq> [] \<and> list_all (\<lambda>y. length y = length x) Y
      then Inr (map (cosine x) Y) else Inl ValueError)"

text \<open>
  The scoring loop of \<^verbatim>\<open>retrieve_memories\<close>: \<open>i\<close> counts the entries of the index,
  and \<^verbatim>\<open>similarities[i]\<close> raises \<^verbatim>\<open>IndexError\<close> beyond the end of the array.  A
  scored entry is kept as its score and its position in the index.
\<close>

definition score :: "real \<Rightarrow> real \<Rightarrow> real" where
  "score similarity imp = similarity * (1 + ln (1 + imp))"

fun scored_memories ::
  "real list \<Rightarrow> real \<Rightarrow> nat \<Rightarrow> MemoryEntry list \<Rightarrow> error + (real \<times> nat) list" where
  "scored_memories similarities min_importance i [] = Inr []"
| "scored_memories similarities min_importance i (memory # rest) =
     (if importance memory \<ge> min_importance then
        (if i < length similarities then
           (case scored_memories similarities min_importance (Suc i) rest of
              Inl e \<Rightarrow> Inl e
            | Inr scored \<Rightarrow> Inr ((score (similarities ! i) (importance memory), i) # scored))
         else Inl IndexError)
      else scored_memories similarities min_importance (Suc i) rest)"

text \<open>
  \<^verbatim>\<open>scored_memories.sort(reverse=True, key=lambda x: x[0])\<close>: a stable sort, descending
  in the score (entries of equal score keep their order).
\<close>

definition sort_scored :: "(real \<times> nat) list \<Rightarrow> (real \<times> nat) list" where
  "sort_scored scored = sort_key (\<lambda>p. - fst p) scored"

text \<open>The slice \<^verbatim>\<open>xs[:k]\<close>: a negative \<open>k\<close> counts from the end.\<close>

definition py_slice_to :: "'a list \<Rightarrow> int \<Rightarrow> 'a list" where
  "py_slice_to xs k = (if 0 \<le> k then take (nat k) xs else take (nat (int (length xs) + k)) xs)"

text \<open>The update of the access statistics, on the entries at the given positions.\<close>

definition touch :: "real \<Rightarrow> MemoryEntry \<Rightarrow> MemoryEntry" where
  "touch now m = m\<lparr>access_count := access_count m + 1, last_accessed := now\<rparr>"

fun mark_accessed :: "real \<Rightarrow> nat list \<Rightarrow> MemoryEntry list \<Rightarrow> MemoryEntry list" where
  "mark_accessed now [] ms = ms"
| "mark_accessed now (i # is) ms = mark_accessed now is (ms[i := touch now (ms ! i)])"

text \<open>
  \<^verbatim>\<open>retrieve_memories\<close>: the returned entries (as they are after the update of their
  statistics), or the exception, and the manager afterwards.
\<close>

definition retrieve_memories ::
  "(byte list \<Rightarrow> byte list) \<Rightarrow> real \<Rightarrow> str \<Rightarrow> int \<Rightarrow> real \<Rightarrow> DiffMemManager \<Rightarrow>
   (error + MemoryEntry list) \<times> DiffMemManager" where
  "retrieve_memories sha256 now query top_k min_importance st =
     (if memories st = [] then (Inr [], st)
      else
        case generate_embedding sha256 st query of
          Inl e \<Rightarrow> (Inl e, st)
        | Inr query_embedding \<Rightarrow>
            (case np_array (present_embeddings (memories st)) of
               Inl e \<Rightarrow> (Inl e, st)
             | Inr memory_embs \<Rightarrow>
                 if memory_embs = [] then (Inr [], st)
                 else
                   (case cosine_similarity query_embedding memory_embs of
                      Inl e \<Rightarrow> (Inl e, st)
                    | Inr similarities \<Rightarrow>
                        (case scored_memories similarities min_importance 0 (memories st) of
                           Inl e \<Rightarrow> (Inl e, st)
                         | Inr scored \<Rightarrow>
                             let top = map snd (py_slice_to (sort_scored scored) top_k);
                                 ms = mark_accessed now top (memories st)
                             in (Inr (map (\<lambda>i. ms ! i) top), st\<lparr>memories := ms\<rparr>)))))"

subsection \<open>Consolidation engine\<close>

text \<open>
  The grouping loop of \<^verbatim>\<open>cluster_memories\<close>: the dictionary from a label to its group,
  in the order in which the labels first appear; the entry of label number \<open>i\<close> is
  \<^verbatim>\<open>self.memories[i]\<close>.
\<close>

fun add_to_cluster ::
  "int \<Rightarrow> MemoryEntry \<Rightarrow> (int \<times> MemoryEntry list) list \<Rightarrow> (int \<times> MemoryEntry list) list" where
  "add_to_cluster label m [] = [(label, [m])]"
| "add_to_cluster label m ((k, g) # clusters) =
     (if k = label then (k, g @ [m]) # clusters else (k, g) # add_to_cluster label m clusters)"

fun group_by_label ::
  "int list \<Rightarrow> nat \<Rightarrow> MemoryEntry list \<Rightarrow> (int \<times> MemoryEntry list) list \<Rightarrow>
   error + (int \<times> MemoryEntry list) list" where
  "group_by_label [] i ms clusters = Inr clusters"
| "group_by_label (label # labels) i ms clusters =
     (if i < length ms then group_by_label labels (Suc i) ms (add_to_cluster label (ms ! i) clusters)
      else Inl IndexError)"

text \<open>
  \<^verbatim>\<open>cluster_memories\<close>.  \<open>dbscan eps min_samples X\<close> stands for
  \<^verbatim>\<open>DBSCAN(eps=eps, min_samples=min_samples, metric='cosine').fit_predict(X)\<close>: the
  labels of the rows of \<open>X\<close>, or the exception it raises.
\<close>

definition cluster_memories ::
  "(real \<Rightarrow> int \<Rightarrow> vector list \<Rightarrow> error + int list) \<Rightarrow> real \<Rightarrow> int \<Rightarrow> DiffMemManager \<Rightarrow>
   error + MemoryEntry list list" where
  "cluster_memories dbscan eps min_samples st =
     (if int (length (memories st)) < min_samples then Inr [memories st]
      else
        case np_array (present_embeddings (memories st)) of
          Inl e \<Rightarrow> Inl e
        | Inr embeddings \<Rightarrow>
            if embeddings = [] then Inr [memories st]
            else
              (case dbscan eps min_samples embeddings of
                 Inl e \<Rightarrow> Inl e
               | Inr labels \<Rightarrow>
                   (case group_by_label labels 0 (memories st) [] of
                      Inl e \<Rightarrow> Inl e
                    | Inr clusters \<Rightarrow> Inr (map snd clusters))))"

text \<open>The decay of one entry at the time \<open>current_time\<close>.\<close>

definition decay :: "real \<Rightarrow> MemoryEntry \<Rightarrow> MemoryEntry" where
  "decay current_time memory =
     (let age_days = (current_time - timestamp memory) / 86400;
          decay_factor = exp (- age_days / MEMORY_DECAY_HALF_LIFE_DAYS)
      in memory\<lparr>importance := importance memory * decay_factor\<rparr>)"

text \<open>
  \<^verbatim>\<open>consolidate_memories\<close>: decay, pruning, then clustering with the default
  parameters, whose groups are only counted for the log.  An exception of the clustering
  leaves the method after the index was decayed and pruned.
\<close>

definition consolidate_memories ::
  "(real \<Rightarrow> int \<Rightarrow> vector list \<Rightarrow> error + int list) \<Rightarrow> real \<Rightarrow> DiffMemManager \<Rightarrow>
   (error + unit) \<times> DiffMemManager" where
  "consolidate_memories dbscan current_time st =
     (if memories st = [] then (Inr (), st)
      else
        let decayed = map (decay current_time) (memories st);
            st1 = st\<lparr>memories := filter (\<lambda>m. importance m > MEMORY_IMPORTANCE_THRESHOLD) decayed\<rparr>
        in case cluster_memories dbscan DBSCAN_DEFAULT_EPS DBSCAN_DEFAULT_MIN_SAMPLES st1 of
             Inl e \<Rightarrow> (Inl e, st1)
           | Inr clusters \<Rightarrow> (Inr (), st1))"

subsection \<open>Predicates of the statements\<close>

text \<open>The invariant of the data model: every live entry has an importance in [0, 10].\<close>

definition importance_in_range :: "DiffMemManager \<Rightarrow> bool" where
  "importance_in_range st =
     list_all (\<lambda>m. 0 \<le> importance m \<and> importance m \<le> 10) (memories st)"

text \<open>A text that \<^verbatim>\<open>encode('utf-8')\<close> accepts: code points without surrogates.\<close>

definition well_formed_text :: "str \<Rightarrow> bool" where
  "well_formed_text s = list_all (\<lambda>cp. cp < 1114112 \<and> \<not> surrogate cp) s"

text \<open>
  The steady state of the index for a query: the query has a non-empty embedding and every
  live entry has an embedding of the same length.
\<close>

definition embeddings_aligned :: "(byte list \<Rightarrow> byte list) \<Rightarrow> DiffMemManager \<Rightarrow> str \<Rightarrow> bool" where
  "embeddings_aligned sha256 st query =
     (case generate_embedding sha256 st query of
        Inl e \<Rightarrow> False
      | Inr qe \<Rightarrow>
          qe \<noteq> [] \<and>
          list_all (\<lambda>m. case embedding m of None \<Rightarrow> False | Some v \<Rightarrow> length v = length qe)
            (memories st))"

subsection \<open>Concrete inputs\<close>

text \<open>
  An entry with the empty content, created at time 0 and never retrieved, and a manager
  over an empty repository.
\<close>

definition example_entry :: "real \<Rightarrow> vector option \<Rightarrow> MemoryEntry" where
  "example_entry imp emb =
     \<lparr>content = [], timestamp = 0, importance = imp, access_count = 0, last_accessed = 0,
      embedding = emb, tags = [], source = [], compressed = False\<rparr>"

definition example_manager ::
  "MemoryEntry list \<Rightarrow> (str \<Rightarrow> vector option) option \<Rightarrow> DiffMemManager" where
  "example_manager ms model =
     \<lparr>compression_enabled = True, memories = ms,
      repo = \<lparr>files = Map.empty, commits = []\<rparr>, embedding_model = model\<rparr>"

text \<open>A model with vectors of two components, which maps every text to \<open>[1, 0]\<close>.\<close>

definition constant_model :: "str \<Rightarrow> vector option" where
  "constant_model txt = Some [1, 0]"

text \<open>The same model when its \<^verbatim>\<open>encode\<close> raises on the empty text.\<close>

definition flaky_model :: "str \<Rightarrow> vector option" where
  "flaky_model txt = (if txt = [] then None else Some [1, 0])"

text \<open>
  The SHA-256 digest of the empty byte string, and a stand-in for \<^verbatim>\<open>hashlib.sha256\<close>
  that is right on the empty byte string.
\<close>

definition sha256_of_empty :: "byte list" where
  "sha256_of_empty =
     [0xE3, 0xB0, 0xC4, 0x42, 0x98, 0xFC, 0x1C, 0x14, 0x9A, 0xFB, 0xF4, 0xC8, 0x99, 0x6F, 0xB9, 0x24,
      0x27, 0xAE, 0x41, 0xE4, 0x64, 0x9B, 0x93, 0x4C, 0xA4, 0x95, 0x99, 0x1B, 0x78, 0x52, 0xB8, 0x55]"

definition sha256_stand_in :: "byte list \<Rightarrow> byte list" where
  "sha256_stand_in bs = sha256_of_empty"

text \<open>
  Stand-ins for zlib that store the bytes as they are, and for DBSCAN when no row has
  \<open>min_samples\<close> neighbours: every row is noise, label -1.
\<close>

definition stored_compress :: "byte list \<Rightarrow> byte list" where
  "stored_compress bs = bs"

definition stored_decompress :: "byte list \<Rightarrow> byte list option" where
  "stored_decompress bs = Some bs"

definition dbscan_all_noise :: "real \<Rightarrow> int \<Rightarrow> vector list \<Rightarrow> error + int list" where
  "dbscan_all_noise eps min_samples X = Inr (map (\<lambda>x. - 1) X)"

section \<open>Properties\<close>

subsection \<open>Importance stays in range\<close>

lemma memories_save_to_git_sync:
  "memories (save_to_git_sync zc io m st) = memories st"
  by (simp add: save_to_git_sync_def Let_def split: sum.splits io_outcome.splits)

lemma importance_touch: "importance (touch now m) = importance m"
  by (simp add: touch_def)

lemma map_importance_mark_accessed:
  "map importance (mark_accessed now is ms) = map importance ms"
proof (induction "is" arbitrary: ms)
  case Nil
  then show ?case by simp
next
  case (Cons i "is")
  have "map importance (ms[i := touch now (ms ! i)]) = map importance ms"
  proof (cases "i < length ms")
    case True
    then have "(map importance ms)[i := importance (ms ! i)] = map importance ms"
      by (metis list_update_id nth_map)
    then show ?thesis by (simp add: map_update importance_touch)
  next
    case False
    then show ?thesis by (simp add: list_update_beyond)
  qed
  with Cons show ?case by simp
qed

lemma list_all_importance_cong:
  assumes "map importance xs = map importance ys"
  shows "list_all (\<lambda>m. P (importance m)) xs = list_all (\<lambda>m. P (importance m)) ys"
proof -
  have "list_all (\<lambda>m. P (importance m)) xs = list_all P (map importance xs)"
    by (simp add: list_all_iff)
  also have "\<dots> = list_all P (map importance ys)" using assms by simp
  also have "\<dots> = list_all (\<lambda>m. P (importance m)) ys" by (simp add: list_all_iff)
  finally show ?thesis .
qed

lemma importance_retrieve_memories:
  "map importance (memories (snd (retrieve_memories sha now q k mi st)))
     = map importance (memories st)"
  by (simp add: retrieve_memories_def Let_def map_importance_mark_accessed split: sum.splits)

lemma decay_in_range:
  assumes "0 \<le> importance m" and "importance m \<le> 10" and "timestamp m \<le> t"
  shows "0 \<le> importance (decay t m) \<and> importance (decay t m) \<le> 10"
proof -
  let ?f = "exp (- ((t - timestamp m) / 86400) / MEMORY_DECAY_HALF_LIFE_DAYS)"
  have "- ((t - timestamp m) / 86400) / MEMORY_DECAY_HALF_LIFE_DAYS \<le> 0"
    using assms(3) by (simp add: MEMORY_DECAY_HALF_LIFE_DAYS_def)
  then have f1: "?f \<le> 1" by simp
  have f0: "0 < ?f" by simp
  have "importance m * ?f \<le> importance m * 1"
    using assms(1) f1 by (rule mult_left_mono[OF _ _, rotated -1])
  then have "importance m * ?f \<le> 10" using assms(2) by simp
  moreover have "0 \<le> importance m * ?f" using assms(1) f0 by simp
  ultimately show ?thesis by (simp add: decay_def Let_def)
qed

lemma memories_consolidate_memories:
  "memories (snd (consolidate_memories dbscan t st)) =
     (if memories st = [] then []
      else filter (\<lambda>m. importance m > MEMORY_IMPORTANCE_THRESHOLD) (map (decay t) (memories st)))"
  by (simp add: consolidate_memories_def Let_def split: sum.splits)

lemma repo_consolidate_memories:
  "repo (snd (consolidate_memories dbscan t st)) = repo st"
  by (simp add: consolidate_memories_def Let_def split: sum.splits)

text \<open>
  C4.  A freshly constructed manager has no live entry.  The entry that
  \<^verbatim>\<open>add_memory\<close> returns has the importance \<open>min (max x 0) 10\<close>,
  which lies in [0, 10], for every real \<open>x\<close>.  When every live entry has an importance in
  [0, 10], this is still so after \<^verbatim>\<open>add_memory\<close>, after \<^verbatim>\<open>retrieve_memories\<close> and
  after \<^verbatim>\<open>consolidate_memories\<close> run at a time \<open>t\<close> not before the timestamp of any
  live entry, whether the operation returns or raises.
\<close>

theorem importance_stays_in_range:
  "importance_in_range (init_manager compression r model)
   \<and> (fst (add_memory sha zc io now cont x tgs src st) = Inr m \<longrightarrow>
      importance m = min (max x 0) 10 \<and> 0 \<le> importance m \<and> importance m \<le> 10)
   \<and> (importance_in_range st \<longrightarrow>
        importance_in_range (snd (add_memory sha zc io now cont x tgs src st))
        \<and> importance_in_range (snd (retrieve_memories sha now q k mi st))
        \<and> (list_all (\<lambda>m. timestamp m \<le> t) (memories st) \<longrightarrow>
             importance_in_range (snd (consolidate_memories dbscan t st))))"
proof (intro conjI impI)
  show "importance_in_range (init_manager compression r model)"
    by (simp add: importance_in_range_def init_manager_def)
next
  assume "fst (add_memory sha zc io now cont x tgs src st) = Inr m"
  then show "importance m = min (max x 0) 10"
    by (auto simp: add_memory_def Let_def split: sum.splits)
  then show "0 \<le> importance m" "importance m \<le> 10" by simp_all
next
  assume inv: "importance_in_range st"
  show "importance_in_range (snd (add_memory sha zc io now cont x tgs src st))"
    using inv
    by (auto simp: add_memory_def Let_def importance_in_range_def memories_save_to_git_sync
        split: sum.splits)
  show "importance_in_range (snd (retrieve_memories sha now q k mi st))"
    using inv unfolding importance_in_range_def
    using list_all_importance_cong[OF importance_retrieve_memories,
        of "\<lambda>v. 0 \<le> v \<and> v \<le> 10" sha now q k mi st] by simp
  assume ts: "list_all (\<lambda>m. timestamp m \<le> t) (memories st)"
  show "importance_in_range (snd (consolidate_memories dbscan t st))"
    using inv ts decay_in_range
    by (auto simp: importance_in_range_def memories_consolidate_memories list_all_iff)
qed

theorem importance_stays_in_range_witness:
  "fst (add_memory sha256_stand_in stored_compress IoOk 0 [] 15 None []
          (example_manager [example_entry 5 (Some [1, 0])] (Some constant_model)))
     = Inr (example_entry 10 (Some [1, 0]))
   \<and> importance (example_entry 10 (Some [1, 0])) = min (max 15 0) 10
   \<and> importance_in_range (example_manager [example_entry 5 (Some [1, 0])] (Some constant_model))
   \<and> list_all (\<lambda>m. timestamp m \<le> 86400)
        (memories (example_manager [example_entry 5 (Some [1, 0])] (Some constant_model)))
   \<and> importance_in_range
        (snd (add_memory sha256_stand_in stored_compress IoOk 0 [] 15 None []
               (example_manager [example_entry 5 (Some [1, 0])] (Some constant_model))))
   \<and> importance_in_range
        (snd (retrieve_memories sha256_stand_in 0 [] 5 0
               (example_manager [example_entry 5 (Some [1, 0])] (Some constant_model))))
   \<and> importance_in_range
        (snd (consolidate_memories dbscan_all_noise 86400
               (example_manager [example_entry 5 (Some [1, 0])] (Some constant_model))))"
proof -
  let ?st = "example_manager [example_entry 5 (Some [1, 0])] (Some constant_model)"
  have a: "fst (add_memory sha256_stand_in stored_compress IoOk 0 [] 15 None [] ?st)
             = Inr (example_entry 10 (Some [1, 0]))"
    by (simp add: add_memory_def generate_embedding_def example_manager_def constant_model_def
        example_entry_def Let_def)
  have i: "importance_in_range ?st"
    by (simp add: importance_in_range_def example_manager_def example_entry_def)
  have t: "list_all (\<lambda>m. timestamp m \<le> 86400) (memories ?st)"
    by (simp add: example_manager_def example_entry_def)
  from a i t
    importance_stays_in_range[of _ _ _ sha256_stand_in stored_compress IoOk 0 "[]" 15 None "[]" ?st
      "example_entry 10 (Some [1, 0])" "[]" 5 0 86400 dbscan_all_noise]
  show ?thesis by blast
qed

subsection \<open>Pruning\<close>

text \<open>
  C5.  After \<^verbatim>\<open>consolidate_memories\<close>, whether it returns or its clustering step
  raises, no entry of the live index has an importance at or below the retention threshold
  0.1, and the repository (its files and its commit history, hence the number of ledger
  records) is the one before the call: pruning touches the in-memory index only.
\<close>

theorem consolidation_prunes_index_only:
  "list_all (\<lambda>m. \<not> importance m \<le> 1 / 10) (memories (snd (consolidate_memories dbscan t st)))
   \<and> repo (snd (consolidate_memories dbscan t st)) = repo st
   \<and> length (commits (repo (snd (consolidate_memories dbscan t st)))) = length (commits (repo st))"
  by (simp add: memories_consolidate_memories repo_consolidate_memories list_all_iff
      MEMORY_IMPORTANCE_THRESHOLD_def)


subsection \<open>Codec round trip\<close>

text \<open>The strict decoder inverts the encoder, code point by code point.\<close>

lemma unat_byte: "n < 256 \<Longrightarrow> unat (of_nat n :: byte) = n"
  by (simp add: unat_of_nat)

lemma utf8_decode_1:
  "unat b0 < 128 \<Longrightarrow>
   utf8_decode (b0 # rest) =
     (case utf8_decode rest of None \<Rightarrow> None | Some cps \<Rightarrow> Some (unat b0 # cps))"
  by simp

lemma utf8_decode_2:
  "unat b0 = 192 + h \<Longrightarrow> 2 \<le> h \<Longrightarrow> h < 32 \<Longrightarrow> unat b1 = 128 + l \<Longrightarrow> l < 64 \<Longrightarrow>
   utf8_decode (b0 # b1 # rest) =
     (case utf8_decode rest of None \<Rightarrow> None | Some cps \<Rightarrow> Some ((h * 64 + l) # cps))"
  by (simp add: continuation_def split: option.splits)

lemma utf8_decode_3:
  "unat b0 = 224 + h \<Longrightarrow> h < 16 \<Longrightarrow> unat b1 = 128 + m \<Longrightarrow> m < 64 \<Longrightarrow>
   unat b2 = 128 + l \<Longrightarrow> l < 64 \<Longrightarrow> 2048 \<le> h * 4096 + m * 64 + l \<Longrightarrow>
   \<not> surrogate (h * 4096 + m * 64 + l) \<Longrightarrow>
   utf8_decode (b0 # b1 # b2 # rest) =
     (case utf8_decode rest of None \<Rightarrow> None
      | Some cps \<Rightarrow> Some ((h * 4096 + m * 64 + l) # cps))"
  by (simp add: continuation_def Let_def split: option.splits)

lemma utf8_decode_4:
  "unat b0 = 240 + h \<Longrightarrow> h < 5 \<Longrightarrow> unat b1 = 128 + n \<Longrightarrow> n < 64 \<Longrightarrow>
   unat b2 = 128 + m \<Longrightarrow> m < 64 \<Longrightarrow> unat b3 = 128 + l \<Longrightarrow> l < 64 \<Longrightarrow>
   65536 \<le> h * 262144 + n * 4096 + m * 64 + l \<Longrightarrow>
   h * 262144 + n * 4096 + m * 64 + l < 1114112 \<Longrightarrow>
   utf8_decode (b0 # b1 # b2 # b3 # rest) =
     (case utf8_decode rest of None \<Rightarrow> None
      | Some cps \<Rightarrow> Some ((h * 262144 + n * 4096 + m * 64 + l) # cps))"
  by (simp add: continuation_def Let_def split: option.splits)

lemma distrib_6: "(a * 64 + b) * 64 = a * 4096 + b * (64::nat)"
  by simp

lemma distrib_12: "(a * 64 + b) * 4096 = a * 262144 + b * (4096::nat)"
  by simp

lemma shift_6: "(x::nat) div 64 * 4096 + x mod 64 * 64 = x * 64"
proof -
  have "x * 64 = (x div 64 * 64 + x mod 64) * 64" by (simp only: div_mult_mod_eq)
  also have "\<dots> = x div 64 * 4096 + x mod 64 * 64" by (rule distrib_6)
  finally show ?thesis by (rule sym)
qed

lemma split_3: "cp div 4096 * 4096 + cp div 64 mod 64 * 64 + cp mod 64 = (cp::nat)"
proof -
  have a: "cp div 4096 = cp div 64 div 64" by (simp add: div_mult2_eq)
  have "cp div 4096 * 4096 + cp div 64 mod 64 * 64 = cp div 64 * 64"
    unfolding a by (rule shift_6)
  then show ?thesis by (simp only: div_mult_mod_eq)
qed

lemma shift_12: "(x::nat) div 64 * 262144 + x mod 64 * 4096 = x * 4096"
proof -
  have "x * 4096 = (x div 64 * 64 + x mod 64) * 4096" by (simp only: div_mult_mod_eq)
  also have "\<dots> = x div 64 * 262144 + x mod 64 * 4096" by (rule distrib_12)
  finally show ?thesis by (rule sym)
qed

lemma split_4:
  "cp div 262144 * 262144 + cp div 4096 mod 64 * 4096 + cp div 64 mod 64 * 64 + cp mod 64
     = (cp::nat)"
proof -
  have a: "cp div 262144 = cp div 4096 div 64" by (simp add: div_mult2_eq)
  have "cp div 262144 * 262144 + cp div 4096 mod 64 * 4096 = cp div 4096 * 4096"
    unfolding a by (rule shift_12)
  then show ?thesis using split_3[of cp] by (simp only:)
qed

lemma utf8_decode_encode_cp:
  assumes "utf8_encode_cp cp = Some bs"
  shows "utf8_decode (bs @ rest) = (case utf8_decode rest of None \<Rightarrow> None | Some cps \<Rightarrow> Some (cp # cps))"
proof -
  define b0 :: byte where "b0 = of_nat cp"
  define c1 :: byte where "c1 = of_nat (128 + cp mod 64)"
  define c2 :: byte where "c2 = of_nat (128 + cp div 64 mod 64)"
  define c3 :: byte where "c3 = of_nat (128 + cp div 4096 mod 64)"
  define l2 :: byte where "l2 = of_nat (192 + cp div 64)"
  define l3 :: byte where "l3 = of_nat (224 + cp div 4096)"
  define l4 :: byte where "l4 = of_nat (240 + cp div 262144)"
  have u1: "unat c1 = 128 + cp mod 64" unfolding c1_def by (intro unat_byte) simp
  have u2: "unat c2 = 128 + cp div 64 mod 64" unfolding c2_def by (intro unat_byte) simp
  have u3: "unat c3 = 128 + cp div 4096 mod 64" unfolding c3_def by (intro unat_byte) simp
  consider (a) "cp < 128" | (b) "128 \<le> cp" "cp < 2048"
    | (c) "2048 \<le> cp" "cp < 65536" "\<not> surrogate cp" | (d) "65536 \<le> cp" "cp < 1114112"
    using assms by (auto simp: utf8_encode_cp_def split: if_splits)
  then show ?thesis
  proof cases
    case a
    then have bs: "bs = [b0]" using assms by (simp add: utf8_encode_cp_def b0_def)
    have u0: "unat b0 = cp" unfolding b0_def using a by (intro unat_byte) simp
    have "utf8_decode (b0 # rest) =
        (case utf8_decode rest of None \<Rightarrow> None | Some cps \<Rightarrow> Some (unat b0 # cps))"
      by (rule utf8_decode_1) (simp add: u0 a)
    then show ?thesis by (simp only: bs u0 append_Cons append_Nil)
  next
    case b
    then have bs: "bs = [l2, c1]"
      using assms by (simp add: utf8_encode_cp_def l2_def c1_def)
    have d: "cp div 64 < 32" "2 \<le> cp div 64" using b by auto
    have u0: "unat l2 = 192 + cp div 64"
      unfolding l2_def using d by (intro unat_byte) simp
    have "utf8_decode (l2 # c1 # rest) =
        (case utf8_decode rest of None \<Rightarrow> None
         | Some cps \<Rightarrow> Some ((cp div 64 * 64 + cp mod 64) # cps))"
      by (rule utf8_decode_2[OF u0 d(2) d(1) u1]) simp
    then show ?thesis by (simp only: bs append_Cons append_Nil div_mult_mod_eq)
  next
    case c
    then have bs: "bs = [l3, c2, c1]"
      using assms by (simp add: utf8_encode_cp_def l3_def c2_def c1_def)
    have d: "cp div 4096 < 16" using c by auto
    have u0: "unat l3 = 224 + cp div 4096"
      unfolding l3_def using d by (intro unat_byte) simp
    have "utf8_decode (l3 # c2 # c1 # rest) =
        (case utf8_decode rest of None \<Rightarrow> None
         | Some cps \<Rightarrow> Some ((cp div 4096 * 4096 + cp div 64 mod 64 * 64 + cp mod 64) # cps))"
    proof (rule utf8_decode_3[OF u0 d u2 _ u1])
      show "cp div 64 mod 64 < 64" "cp mod 64 < 64" by simp_all
      show "2048 \<le> cp div 4096 * 4096 + cp div 64 mod 64 * 64 + cp mod 64"
        unfolding split_3 by (rule c(1))
      show "\<not> surrogate (cp div 4096 * 4096 + cp div 64 mod 64 * 64 + cp mod 64)"
        unfolding split_3 by (rule c(3))
    qed
    then show ?thesis by (simp only: bs append_Cons append_Nil split_3)
  next
    case d
    then have bs: "bs = [l4, c3, c2, c1]"
      using assms by (simp add: utf8_encode_cp_def l4_def c3_def c2_def c1_def)
    have dd: "cp div 262144 < 5" using d by auto
    have u0: "unat l4 = 240 + cp div 262144"
      unfolding l4_def using dd by (intro unat_byte) simp
    have "utf8_decode (l4 # c3 # c2 # c1 # rest) =
        (case utf8_decode rest of None \<Rightarrow> None
         | Some cps \<Rightarrow>
             Some ((cp div 262144 * 262144 + cp div 4096 mod 64 * 4096
                    + cp div 64 mod 64 * 64 + cp mod 64) # cps))"
    proof (rule utf8_decode_4[OF u0 dd u3 _ u2 _ u1])
      show "cp div 4096 mod 64 < 64" "cp div 64 mod 64 < 64" "cp mod 64 < 64" by simp_all
      show "65536 \<le> cp div 262144 * 262144 + cp div 4096 mod 64 * 4096
                    + cp div 64 mod 64 * 64 + cp mod 64"
        unfolding split_4 by (rule d(1))
      show "cp div 262144 * 262144 + cp div 4096 mod 64 * 4096
                    + cp div 64 mod 64 * 64 + cp mod 64 < 1114112"
        unfolding split_4 by (rule d(2))
    qed
    then show ?thesis by (simp only: bs append_Cons append_Nil split_4)
  qed
qed

lemma utf8_decode_encode: "utf8_encode s = Some bs \<Longrightarrow> utf8_decode bs = Some s"
proof (induction s arbitrary: bs)
  case Nil
  then show ?case by simp
next
  case (Cons cp cps)
  then obtain b r where b: "utf8_encode_cp cp = Some b" and r: "utf8_encode cps = Some r"
    and bs: "bs = b @ r"
    by (auto split: option.splits)
  from Cons.IH[OF r] utf8_decode_encode_cp[OF b, of r] show ?case by (simp add: bs)
qed

lemma utf8_encode_well_formed: "well_formed_text s \<Longrightarrow> \<exists>bs. utf8_encode s = Some bs"
proof (induction s)
  case Nil
  then show ?case by simp
next
  case (Cons cp cps)
  then have "\<exists>b. utf8_encode_cp cp = Some b"
    by (simp add: well_formed_text_def utf8_encode_cp_def)
  with Cons show ?case by (auto simp: well_formed_text_def)
qed

lemma utf8_encode_ascii_run: "utf8_encode (replicate n 97) = Some (replicate n 97)"
  by (induction n) (simp_all add: utf8_encode_cp_def)

text \<open>
  C6.  Taking zlib at its contract (decompressing what \<^verbatim>\<open>zlib.compress\<close> returned
  gives the bytes back), \<^verbatim>\<open>_decompress_content\<close> returns the text that
  \<^verbatim>\<open>_compress_content\<close> was applied to, for every text on which
  \<^verbatim>\<open>_compress_content\<close> returns, of any length; and it returns on every text without
  surrogate code points.
\<close>

theorem codec_round_trip:
  "zlib_lossless zc zd \<Longrightarrow>
   (compress_content zc s = Inr c \<longrightarrow> decompress_content zd c = Inr s)
   \<and> (well_formed_text s \<longrightarrow> (\<exists>c. compress_content zc s = Inr c))"
proof (intro conjI impI)
  assume z: "zlib_lossless zc zd"
  { assume "compress_content zc s = Inr c"
    then obtain bs where bs: "utf8_encode s = Some bs" and c: "c = zc bs"
      by (auto simp: compress_content_def split: option.splits)
    from z have "zd (zc bs) = Some bs" by (simp add: zlib_lossless_def)
    then show "decompress_content zd c = Inr s"
      by (simp add: decompress_content_def c utf8_decode_encode[OF bs]) }
  { assume "well_formed_text s"
    from utf8_encode_well_formed[OF this] show "\<exists>c. compress_content zc s = Inr c"
      by (auto simp: compress_content_def) }
qed

theorem codec_round_trip_witness:
  "zlib_lossless stored_compress stored_decompress
   \<and> length (replicate 1025 (97::nat)) > 1024
   \<and> compress_content stored_compress (replicate 1025 97) = Inr (replicate 1025 97)
   \<and> decompress_content stored_decompress (replicate 1025 97) = Inr (replicate 1025 97)"
proof -
  have z: "zlib_lossless stored_compress stored_decompress"
    by (simp add: zlib_lossless_def stored_compress_def stored_decompress_def)
  have c: "compress_content stored_compress (replicate 1025 97) = Inr (replicate 1025 97)"
    by (simp add: compress_content_def utf8_encode_ascii_run stored_compress_def)
  from codec_round_trip[OF z, of "replicate 1025 97" "replicate 1025 97"] c z
  show ?thesis by simp
qed

subsection \<open>Hash-based embedding\<close>

text \<open>A vector with a non-zero component, divided by its norm, has norm 1.\<close>

lemma dot_self: "dot x x = (\<Sum>v\<leftarrow>x. v * v)"
  by (induction x) (simp_all add: dot_def)

lemma dot_self_nonneg: "0 \<le> dot x x"
  unfolding dot_self by (induction x) simp_all

lemma dot_self_pos: "\<exists>v\<in>set x. v \<noteq> 0 \<Longrightarrow> 0 < dot x x"
  unfolding dot_self
proof (induction x)
  case Nil
  then show ?case by simp
next
  case (Cons a x)
  have nn: "0 \<le> (\<Sum>v\<leftarrow>x. v * v)" by (induction x) simp_all
  show ?case
  proof (cases "a = 0")
    case True
    with Cons show ?thesis by simp
  next
    case False
    then have "0 < a * a" using zero_le_square[of a] by (simp add: less_le)
    with nn show ?thesis by simp
  qed
qed

lemma dot_scaled: "dot (map (\<lambda>v. v / n) x) (map (\<lambda>v. v / n) x) = dot x x / (n * n)"
  unfolding dot_self by (induction x) (simp_all add: add_divide_distrib)

lemma l2_norm_normalized:
  assumes "\<exists>v\<in>set x. v \<noteq> 0"
  shows "l2_norm (map (\<lambda>v. v / l2_norm x) x) = 1"
proof -
  have pos: "0 < dot x x" using assms by (rule dot_self_pos)
  have "l2_norm x * l2_norm x = dot x x"
    using pos by (simp add: l2_norm_def)
  then have "dot (map (\<lambda>v. v / l2_norm x) x) (map (\<lambda>v. v / l2_norm x) x) = 1"
    using pos by (simp add: dot_scaled)
  then show ?thesis by (simp add: l2_norm_def)
qed

lemma nonzero_digest: "(bs :: byte list) \<noteq> replicate (length bs) 0 \<Longrightarrow> \<exists>b\<in>set bs. b \<noteq> 0"
  by (induction bs) auto

text \<open>
  C10.  When no model is loaded, \<^verbatim>\<open>_generate_embedding\<close> returns, for a text that
  encodes to the bytes \<open>bs\<close>, a vector that depends on the text alone (the same for
  every manager without a model), with 32 components and L2 norm 1, provided that the
  digest \<open>sha bs\<close> of SHA-256 has 32 bytes, as SHA-256 digests have, and is not the all-zero
  digest.
\<close>

theorem hash_fallback_is_a_unit_vector:
  assumes "embedding_model st = None" and "utf8_encode txt = Some bs"
    and "length (sha bs) = 32" and "sha bs \<noteq> replicate 32 0"
  shows "\<exists>v. generate_embedding sha st txt = Inr v \<and> length v = 32 \<and> l2_norm v = 1
           \<and> (\<forall>st'. embedding_model st' = None \<longrightarrow> generate_embedding sha st' txt = Inr v)"
proof -
  let ?emb = "map (\<lambda>b. real (unat b)) (sha bs)"
  let ?v = "map (\<lambda>v. v / l2_norm ?emb) ?emb"
  have g: "\<And>s. embedding_model s = None \<Longrightarrow> generate_embedding sha s txt = Inr ?v"
    using assms(2) by (simp add: generate_embedding_def hash_embedding_def Let_def)
  from assms(3,4) have "\<exists>b\<in>set (sha bs). b \<noteq> 0"
    using nonzero_digest[of "sha bs"] by simp
  then have "\<exists>v\<in>set ?emb. v \<noteq> 0" by (auto simp: unsigned_eq_0_iff)
  then have "l2_norm ?v = 1" by (rule l2_norm_normalized)
  moreover have "length ?v = 32" using assms(3) by simp
  ultimately show ?thesis using g assms(1) by blast
qed

theorem hash_fallback_is_a_unit_vector_witness:
  "embedding_model (example_manager [] None) = None
   \<and> utf8_encode [] = Some []
   \<and> length (sha256_stand_in []) = 32
   \<and> sha256_stand_in [] \<noteq> replicate 32 0
   \<and> (\<exists>v. generate_embedding sha256_stand_in (example_manager [] None) [] = Inr v
            \<and> length v = 32 \<and> l2_norm v = 1)"
proof -
  have m: "embedding_model (example_manager [] None) = None"
    by (simp add: example_manager_def)
  have e: "utf8_encode [] = Some []" by simp
  have l: "length (sha256_stand_in []) = 32"
    by (simp add: sha256_stand_in_def sha256_of_empty_def)
  have "hd (sha256_stand_in []) \<noteq> hd (replicate 32 0)"
    by (simp add: sha256_stand_in_def sha256_of_empty_def)
  then have n: "sha256_stand_in [] \<noteq> replicate 32 0" by metis
  from hash_fallback_is_a_unit_vector[where sha = sha256_stand_in, OF m e l n] m e l n
  show ?thesis by blast
qed

subsection \<open>Retrieval\<close>

lemma l2_norm_unit_examples: "l2_norm [1, 0] = 1" "l2_norm [0, 1] = 1"
  by (simp_all add: l2_norm_def dot_def)

lemma cosine_unit_examples: "cosine [1, 0] [1, 0] = 1" "cosine [1, 0] [0, 1] = 0"
  by (simp_all add: cosine_def normalize_row_def dot_def l2_norm_unit_examples)

lemma ln_2_lower: "- 1 \<le> ln (2::real)"
proof -
  have "0 < ln (2::real)" by simp
  then show ?thesis by linarith
qed

text \<open>
  What holds of the scores on an index where every entry has an embedding: a similarity
  of 0 gives the score 0, the score grows strictly with the importance at a fixed positive
  similarity, the sort is descending in the score, and each entry that passes the
  importance filter is scored with the similarity of its own embedding.
\<close>

lemma score_zero_similarity: "score 0 imp = 0"
  by (simp add: score_def)

lemma score_strict_mono:
  assumes "0 < s" and "0 \<le> i1" and "i1 < i2"
  shows "score s i1 < score s i2"
proof -
  have "ln (1 + i1) < ln (1 + i2)" using assms(2,3) by simp
  then show ?thesis using assms(1) by (simp add: score_def)
qed

lemma sort_scored_descending: "sorted_wrt (\<lambda>x y. fst y \<le> fst x) (sort_scored xs)"
proof -
  have "sorted (map (\<lambda>p. - fst p) (sort_key (\<lambda>p. - fst p) xs))" by (rule sorted_sort_key)
  then show ?thesis by (simp add: sort_scored_def sorted_map sorted_wrt_iff_nth_less)
qed

lemma scored_memories_zip:
  "i + length ms \<le> length sims \<Longrightarrow>
   scored_memories sims mi i ms =
     Inr (List.map_filter
            (\<lambda>(j, s, m). if importance m \<ge> mi then Some (score s (importance m), j) else None)
            (zip [i..<i + length ms] (zip (drop i sims) ms)))"
proof (induction ms arbitrary: i)
  case Nil
  then show ?case by (simp add: List.map_filter_simps)
next
  case (Cons m ms)
  then have i: "i < length sims" and s: "Suc i + length ms \<le> length sims" by simp_all
  have d: "drop i sims = sims ! i # drop (Suc i) sims" using i by (simp add: Cons_nth_drop_Suc)
  have "i < i + length (m # ms)" by simp
  from upt_conv_Cons[OF this]
  have u: "[i..<i + length (m # ms)] = i # [Suc i..<Suc i + length ms]" by simp
  show ?case
    unfolding u d using Cons.IH[OF s] i by (simp add: List.map_filter_simps)
qed

lemma present_embeddings_Cons:
  "embedding m = Some v \<Longrightarrow> v \<noteq> [] \<Longrightarrow>
   present_embeddings (m # ms) = v # present_embeddings ms"
  by (simp add: present_embeddings_def List.map_filter_simps)

lemma scored_memories_own_embedding:
  assumes "list_all (\<lambda>m. case embedding m of None \<Rightarrow> False | Some v \<Rightarrow> v \<noteq> []) ms"
  shows "scored_memories (pre @ map (cosine qe) (present_embeddings ms)) mi (length pre) ms =
     Inr (List.map_filter
            (\<lambda>(j, m). if importance m \<ge> mi
                       then Some (score (cosine qe (the (embedding m))) (importance m), j)
                       else None)
            (zip [length pre..<length pre + length ms] ms))"
  using assms
proof (induction ms arbitrary: pre)
  case Nil
  then show ?case by (simp add: List.map_filter_simps)
next
  case (Cons m ms)
  then obtain v where v: "embedding m = Some v" "v \<noteq> []"
    and rest: "list_all (\<lambda>m. case embedding m of None \<Rightarrow> False | Some v \<Rightarrow> v \<noteq> []) ms"
    by (auto split: option.splits)
  let ?sims = "pre @ map (cosine qe) (present_embeddings (m # ms))"
  have sims: "?sims = (pre @ [cosine qe v]) @ map (cosine qe) (present_embeddings ms)"
    by (simp add: present_embeddings_Cons[OF v])
  have at: "?sims ! length pre = cosine qe v"
    by (simp add: present_embeddings_Cons[OF v])
  have lt: "length pre < length ?sims" by (simp add: present_embeddings_Cons[OF v])
  have "length pre < length pre + length (m # ms)" by simp
  from upt_conv_Cons[OF this]
  have u: "[length pre..<length pre + length (m # ms)]
             = length pre # [length (pre @ [cosine qe v])..<length (pre @ [cosine qe v]) + length ms]"
    by simp
  have ih: "scored_memories ?sims mi (Suc (length pre)) ms =
     Inr (List.map_filter
            (\<lambda>(j, m). if importance m \<ge> mi
                       then Some (score (cosine qe (the (embedding m))) (importance m), j)
                       else None)
            (zip [length (pre @ [cosine qe v])..<length (pre @ [cosine qe v]) + length ms] ms))"
    using Cons.IH[OF rest, of "pre @ [cosine qe v]"] unfolding sims by simp
  show ?case
    unfolding u using ih at lt v by (simp add: List.map_filter_simps)
qed

text \<open>
  C1, at a failing input.  The index holds an entry without embedding (importance 0),
  then \<open>B\<close> (embedding \<open>[1, 0]\<close>, importance 1), \<open>A\<close> (embedding \<open>[1, 0]\<close>,
  importance 9) and an entry with embedding \<open>[0, 1]\<close> (importance 0); the query embeds
  to \<open>[1, 0]\<close> and \<^verbatim>\<open>min_importance\<close> is 1.  The similarities are computed for the
  three entries that have an embedding, \<open>[1, 1, 0]\<close>, but the scoring loop indexes them by
  the position in the whole index: \<open>B\<close> is scored with the similarity of \<open>A\<close> and \<open>A\<close>
  with that of the last entry.  So \<open>A\<close>, whose similarity to the query is 1 as that of
  \<open>B\<close> and whose importance is greater, gets the score 0 and is returned after \<open>B\<close>.
\<close>

theorem misaligned_scores_invert_ranking:
  "cosine [1, 0] [1, 0] = 1
   \<and> cosine_similarity [1, 0]
        (present_embeddings
           [example_entry 0 None, example_entry 1 (Some [1, 0]), example_entry 9 (Some [1, 0]),
            example_entry 0 (Some [0, 1])]) = Inr [1, 1, 0]
   \<and> scored_memories [1, 1, 0] 1 0
        [example_entry 0 None, example_entry 1 (Some [1, 0]), example_entry 9 (Some [1, 0]),
         example_entry 0 (Some [0, 1])] = Inr [(1 + ln 2, 1), (0, 2)]
   \<and> fst (retrieve_memories sha256_stand_in 0 [] 5 1
        (example_manager
           [example_entry 0 None, example_entry 1 (Some [1, 0]), example_entry 9 (Some [1, 0]),
            example_entry 0 (Some [0, 1])] (Some constant_model)))
      = Inr [touch 0 (example_entry 1 (Some [1, 0])), touch 0 (example_entry 9 (Some [1, 0]))]"
  by (simp add: ln_2_lower retrieve_memories_def example_manager_def generate_embedding_def
      constant_model_def present_embeddings_def List.map_filter_simps np_array_def
      cosine_similarity_def cosine_unit_examples example_entry_def sort_scored_def
      py_slice_to_def Let_def score_def)

text \<open>
  C2, at a failing input.  The index holds an entry without embedding (importance 5) and
  an entry with the embedding \<open>[1, 0]\<close> (importance 1), and \<^verbatim>\<open>min_importance\<close> is 2.
  The entry without embedding passes the importance filter, is scored with
  \<^verbatim>\<open>similarities[0]\<close>, which is the similarity of the other entry, and is returned.
\<close>

theorem retrieve_returns_entry_without_embedding:
  "retrieve_memories sha256_stand_in 0 [] 5 2
     (example_manager [example_entry 5 None, example_entry 1 (Some [1, 0])] (Some constant_model))
   = (Inr [touch 0 (example_entry 5 None)],
      example_manager [touch 0 (example_entry 5 None), example_entry 1 (Some [1, 0])]
        (Some constant_model))
   \<and> embedding (touch 0 (example_entry 5 None)) = None"
  by (simp add: retrieve_memories_def example_manager_def generate_embedding_def
      constant_model_def present_embeddings_def List.map_filter_simps np_array_def
      cosine_similarity_def cosine_unit_examples example_entry_def sort_scored_def
      py_slice_to_def Let_def score_def touch_def)

text \<open>The length of the returned sequence, and when the call returns.\<close>

lemma length_py_slice_to: "0 \<le> k \<Longrightarrow> length (py_slice_to xs k) \<le> nat k"
  by (simp add: py_slice_to_def)

lemma retrieve_memories_length:
  assumes "fst (retrieve_memories sha now q k mi st) = Inr res" and "0 \<le> k"
  shows "length res \<le> nat k"
  using assms length_py_slice_to[OF assms(2)]
  by (auto simp: retrieve_memories_def Let_def split: if_splits sum.splits)

lemma present_embeddings_all:
  assumes "list_all (\<lambda>m. case embedding m of None \<Rightarrow> False | Some v \<Rightarrow> length v = n) ms" and "0 < n"
  shows "length (present_embeddings ms) = length ms
         \<and> list_all (\<lambda>v. length v = n) (present_embeddings ms)"
  using assms
  by (induction ms) (auto simp: present_embeddings_def List.map_filter_simps split: option.splits)

lemma np_array_rectangular:
  "list_all (\<lambda>v. length v = n) rows \<Longrightarrow> np_array rows = Inr rows"
  by (cases rows) (auto simp: np_array_def list_all_iff)

lemma scored_memories_in_range:
  "i + length ms \<le> length sims \<Longrightarrow> \<exists>scored. scored_memories sims mi i ms = Inr scored"
proof (induction ms arbitrary: i)
  case Nil
  then show ?case by simp
next
  case (Cons m ms)
  then have "Suc i + length ms \<le> length sims" by simp
  from Cons.IH[OF this] obtain scored where "scored_memories sims mi (Suc i) ms = Inr scored" ..
  with Cons.prems show ?case by simp
qed

lemma retrieve_memories_returns:
  assumes "embeddings_aligned sha st q"
  shows "\<exists>res. fst (retrieve_memories sha now q k mi st) = Inr res"
proof -
  from assms obtain qe where qe: "generate_embedding sha st q = Inr qe" and ne: "qe \<noteq> []"
    and al: "list_all (\<lambda>m. case embedding m of None \<Rightarrow> False | Some v \<Rightarrow> length v = length qe)
               (memories st)"
    by (auto simp: embeddings_aligned_def split: sum.splits)
  let ?embs = "present_embeddings (memories st)"
  from present_embeddings_all[OF al] ne
  have len: "length ?embs = length (memories st)" and rect: "list_all (\<lambda>v. length v = length qe) ?embs"
    by simp_all
  have np: "np_array ?embs = Inr ?embs" using rect by (rule np_array_rectangular)
  show ?thesis
  proof (cases "memories st = []")
    case True
    then show ?thesis by (simp add: retrieve_memories_def)
  next
    case False
    then have nonempty: "?embs \<noteq> []" using len by auto
    have cs: "cosine_similarity qe ?embs = Inr (map (cosine qe) ?embs)"
      using ne nonempty rect by (simp add: cosine_similarity_def)
    have "0 + length (memories st) \<le> length (map (cosine qe) ?embs)" using len by simp
    from scored_memories_in_range[OF this] obtain scored
      where "scored_memories (map (cosine qe) ?embs) mi 0 (memories st) = Inr scored" ..
    then show ?thesis
      using False qe np nonempty cs by (simp add: retrieve_memories_def Let_def)
  qed
qed

lemma length_scored_memories:
  "scored_memories sims mi i ms = Inr scored \<Longrightarrow> length scored \<le> length ms"
proof (induction ms arbitrary: i scored)
  case Nil
  then show ?case by simp
next
  case (Cons m ms)
  show ?case
  proof (cases "importance m \<ge> mi")
    case True
    with Cons.prems obtain rest where r: "scored_memories sims mi (Suc i) ms = Inr rest"
      and s: "scored = (score (sims ! i) (importance m), i) # rest"
      by (auto split: if_splits sum.splits)
    from Cons.IH[OF r] s show ?thesis by simp
  next
    case False
    with Cons.prems have "scored_memories sims mi (Suc i) ms = Inr scored" by simp
    from Cons.IH[OF this] show ?thesis by simp
  qed
qed

lemma length_py_slice_to_negative:
  "k < 0 \<Longrightarrow> length (py_slice_to xs k) = length xs - nat (- k)"
  by (auto simp: py_slice_to_def)

lemma retrieve_memories_result:
  assumes "fst (retrieve_memories sha now q k mi st) = Inr res"
  shows "res = [] \<or> (\<exists>sims scored. scored_memories sims mi 0 (memories st) = Inr scored
                      \<and> length res = length (py_slice_to (sort_scored scored) k))"
proof (cases "memories st = []")
  case True
  with assms show ?thesis by (simp add: retrieve_memories_def)
next
  case False
  show ?thesis
  proof (cases "generate_embedding sha st q")
    case (Inl e)
    with assms False show ?thesis by (simp add: retrieve_memories_def)
  next
    case qe: (Inr qe)
    show ?thesis
    proof (cases "np_array (present_embeddings (memories st))")
      case (Inl e)
      with assms False qe show ?thesis by (simp add: retrieve_memories_def)
    next
      case embs: (Inr embs)
      show ?thesis
      proof (cases "embs = []")
        case True
        with assms False qe embs show ?thesis by (simp add: retrieve_memories_def)
      next
        case ne: False
        show ?thesis
        proof (cases "cosine_similarity qe embs")
          case (Inl e)
          with assms False qe embs ne show ?thesis by (simp add: retrieve_memories_def)
        next
          case sims: (Inr sims)
          show ?thesis
          proof (cases "scored_memories sims mi 0 (memories st)")
            case (Inl e)
            with assms False qe embs ne sims show ?thesis by (simp add: retrieve_memories_def)
          next
            case sc: (Inr scored)
            with assms False qe embs ne sims
            have "length res = length (py_slice_to (sort_scored scored) k)"
              by (auto simp: retrieve_memories_def Let_def)
            with sc show ?thesis by blast
          qed
        qed
      qed
    qed
  qed
qed

lemma retrieve_memories_length_negative:
  assumes "fst (retrieve_memories sha now q k mi st) = Inr res" and "k < 0"
  shows "length res \<le> length (memories st) - nat (- k)"
proof -
  from retrieve_memories_result[OF assms(1)]
  consider "res = []"
    | sims scored where "scored_memories sims mi 0 (memories st) = Inr scored"
        "length res = length (py_slice_to (sort_scored scored) k)"
    by blast
  then show ?thesis
  proof cases
    case 1
    then show ?thesis by simp
  next
    case 2
    have "length (sort_scored scored) = length scored" by (simp add: sort_scored_def)
    with length_scored_memories[OF 2(1)]
      length_py_slice_to_negative[OF assms(2), of "sort_scored scored"] 2(2)
    show ?thesis by simp
  qed
qed

text \<open>
  C3, as amended.  Whenever \<^verbatim>\<open>retrieve_memories\<close> returns, the sequence has at most
  \<open>k\<close> entries for \<open>k \<ge> 0\<close>, and is empty for \<open>k = 0\<close>; for \<open>k < 0\<close> the slice
  drops the last \<open>-k\<close> scored entries, so that at most \<open>n + k\<close> of the \<open>n\<close> live
  entries are returned.  The call does return (no exception), for every \<open>k\<close>, when the
  query and all live entries have embeddings of one length.
\<close>

theorem retrieve_memories_top_k_bound:
  "(fst (retrieve_memories sha now q k mi st) = Inr res \<longrightarrow> 0 \<le> k \<longrightarrow> length res \<le> nat k)
   \<and> (fst (retrieve_memories sha now q 0 mi st) = Inr res \<longrightarrow> res = [])
   \<and> (fst (retrieve_memories sha now q k mi st) = Inr res \<longrightarrow> k < 0 \<longrightarrow>
        length res \<le> length (memories st) - nat (- k))
   \<and> (embeddings_aligned sha st q \<longrightarrow> (\<exists>r. fst (retrieve_memories sha now q k mi st) = Inr r))"
  using retrieve_memories_length[of sha now q k mi st res]
    retrieve_memories_length[of sha now q 0 mi st res]
    retrieve_memories_length_negative[of sha now q k mi st res]
    retrieve_memories_returns[of sha st q now k mi]
  by auto

theorem retrieve_memories_top_k_bound_witness:
  "embeddings_aligned sha256_stand_in
     (example_manager [example_entry 0 (Some [1, 0]), example_entry 0 (Some [0, 1])]
        (Some constant_model)) []
   \<and> fst (retrieve_memories sha256_stand_in 0 [] 1 0
        (example_manager [example_entry 0 (Some [1, 0]), example_entry 0 (Some [0, 1])]
           (Some constant_model)))
      = Inr [touch 0 (example_entry 0 (Some [1, 0]))]
   \<and> length [touch 0 (example_entry 0 (Some [1, 0]))] \<le> nat 1
   \<and> fst (retrieve_memories sha256_stand_in 0 [] 0 0
        (example_manager [example_entry 0 (Some [1, 0]), example_entry 0 (Some [0, 1])]
           (Some constant_model)))
      = Inr []"
proof -
  let ?st = "example_manager [example_entry 0 (Some [1, 0]), example_entry 0 (Some [0, 1])]
               (Some constant_model)"
  have a: "embeddings_aligned sha256_stand_in ?st []"
    by (simp add: embeddings_aligned_def example_manager_def generate_embedding_def
        constant_model_def example_entry_def)
  have r: "fst (retrieve_memories sha256_stand_in 0 [] 1 0 ?st)
             = Inr [touch 0 (example_entry 0 (Some [1, 0]))]"
    by (simp add: retrieve_memories_def example_manager_def generate_embedding_def
        constant_model_def present_embeddings_def List.map_filter_simps np_array_def
        cosine_similarity_def cosine_unit_examples example_entry_def sort_scored_def
        py_slice_to_def Let_def score_def)
  from retrieve_memories_top_k_bound[of sha256_stand_in 0 "[]" 0 0 ?st _ ] a
  obtain r0 where r0: "fst (retrieve_memories sha256_stand_in 0 [] 0 0 ?st) = Inr r0" by blast
  with retrieve_memories_top_k_bound[of sha256_stand_in 0 "[]" 0 0 ?st r0]
  have z: "fst (retrieve_memories sha256_stand_in 0 [] 0 0 ?st) = Inr []" by simp
  from retrieve_memories_top_k_bound[of sha256_stand_in 0 "[]" 1 0 ?st
      "[touch 0 (example_entry 0 (Some [1, 0]))]"] r
  have "length [touch 0 (example_entry 0 (Some [1, 0]))] \<le> nat 1" by simp
  with a r z show ?thesis by blast
qed

text \<open>
  C3 as stated fails for a negative \<open>k\<close>: the slice \<^verbatim>\<open>scored_memories[:-1]\<close> drops the
  last scored entry only, so with two live entries and \<^verbatim>\<open>top_k = -1\<close> one entry is
  returned.
\<close>

theorem negative_top_k_counterexample:
  "fst (retrieve_memories sha256_stand_in 0 [] (- 1) 0
     (example_manager [example_entry 0 (Some [1, 0]), example_entry 0 (Some [0, 1])]
        (Some constant_model)))
   = Inr [touch 0 (example_entry 0 (Some [1, 0]))]"
  by (simp add: retrieve_memories_def example_manager_def generate_embedding_def
      constant_model_def present_embeddings_def List.map_filter_simps np_array_def
      cosine_similarity_def cosine_unit_examples example_entry_def sort_scored_def
      py_slice_to_def Let_def score_def)

subsection \<open>Degraded subsystems\<close>

text \<open>
  The parts of the degraded behaviour that hold: the fallback replaces a model that
  raised; on a text without surrogates the embedding step returns; \<^verbatim>\<open>add_memory\<close>
  then returns its entry and keeps it in the index whatever the ledger did; a failed
  commit adds no record.
\<close>

lemma generate_embedding_falls_back:
  "embedding_model st = Some encode \<Longrightarrow> encode txt = None \<Longrightarrow>
   generate_embedding sha st txt = hash_embedding sha txt"
  by (simp add: generate_embedding_def)

lemma generate_embedding_well_formed:
  "well_formed_text txt \<Longrightarrow> \<exists>v. generate_embedding sha st txt = Inr v"
  using utf8_encode_well_formed[of "txt"]
  by (auto simp: generate_embedding_def hash_embedding_def Let_def split: option.splits)

lemma add_memory_keeps_entry:
  assumes "generate_embedding sha st cont = Inr emb"
  shows "\<exists>m. fst (add_memory sha zc io now cont x tgs src st) = Inr m
           \<and> embedding m = Some emb
           \<and> memories (snd (add_memory sha zc io now cont x tgs src st)) = memories st @ [m]"
  using assms by (simp add: add_memory_def Let_def memories_save_to_git_sync)

lemma failed_commit_adds_no_record:
  "io \<noteq> IoOk \<Longrightarrow> commits (repo (save_to_git_sync zc io m st)) = commits (repo st)"
  by (cases io) (simp_all add: save_to_git_sync_def Let_def split: sum.splits)

text \<open>
  C7, at a failing input.  A model is loaded; \<^verbatim>\<open>add_memory\<close> stores an entry with the
  model's embedding (two components here), and the commit succeeds.  Then the model raises
  on the query: \<^verbatim>\<open>_generate_embedding\<close> catches the exception and returns the hash-based
  fallback, a vector of 32 components, and \<^verbatim>\<open>cosine_similarity\<close> raises
  \<^verbatim>\<open>ValueError\<close> on the two different lengths, which \<^verbatim>\<open>retrieve_memories\<close> does
  not catch.
\<close>

theorem retrieve_raises_after_query_fallback:
  "add_memory sha256_stand_in stored_compress IoOk 0 [104, 105] 1 None []
     (init_manager True \<lparr>files = Map.empty, commits = []\<rparr> (Some flaky_model))
   = (Inr ((example_entry 1 (Some [1, 0]))\<lparr>content := [104, 105]\<rparr>),
      \<lparr>compression_enabled = True,
       memories = [(example_entry 1 (Some [1, 0]))\<lparr>content := [104, 105]\<rparr>],
       repo = \<lparr>files = [0 \<mapsto> (example_entry 1 (Some [1, 0]))\<lparr>content := [104, 105]\<rparr>],
               commits = [([], 0)]\<rparr>,
       embedding_model = Some flaky_model\<rparr>)
   \<and> generate_embedding sha256_stand_in
        \<lparr>compression_enabled = True,
         memories = [(example_entry 1 (Some [1, 0]))\<lparr>content := [104, 105]\<rparr>],
         repo = \<lparr>files = [0 \<mapsto> (example_entry 1 (Some [1, 0]))\<lparr>content := [104, 105]\<rparr>],
                 commits = [([], 0)]\<rparr>,
         embedding_model = Some flaky_model\<rparr> []
      = hash_embedding sha256_stand_in []
   \<and> fst (retrieve_memories sha256_stand_in 1 [] 5 0
        \<lparr>compression_enabled = True,
         memories = [(example_entry 1 (Some [1, 0]))\<lparr>content := [104, 105]\<rparr>],
         repo = \<lparr>files = [0 \<mapsto> (example_entry 1 (Some [1, 0]))\<lparr>content := [104, 105]\<rparr>],
                 commits = [([], 0)]\<rparr>,
         embedding_model = Some flaky_model\<rparr>)
      = Inl ValueError"
  by (simp add: add_memory_def init_manager_def generate_embedding_def flaky_model_def
      save_to_git_sync_def py_int_def example_entry_def Let_def retrieve_memories_def
      hash_embedding_def sha256_stand_in_def sha256_of_empty_def present_embeddings_def
      List.map_filter_simps np_array_def cosine_similarity_def)

subsection \<open>Clustering\<close>

text \<open>
  C8, as amended.  When the index holds fewer live entries than \<^verbatim>\<open>min_samples\<close>, or
  no live entry has an embedding, \<^verbatim>\<open>cluster_memories\<close> returns the single group of all
  live entries, whatever DBSCAN would do: it is not called.
\<close>

theorem cluster_memories_single_group:
  "int (length (memories st)) < min_samples \<or> present_embeddings (memories st) = [] \<Longrightarrow>
   cluster_memories dbscan eps min_samples st = Inr [memories st]"
  by (auto simp: cluster_memories_def np_array_def)

theorem cluster_memories_single_group_witness:
  "int (length (memories (example_manager [example_entry 1 (Some [1, 0])] None))) < 2
   \<and> cluster_memories dbscan_all_noise (3 / 10) 2
        (example_manager [example_entry 1 (Some [1, 0])] None)
      = Inr [memories (example_manager [example_entry 1 (Some [1, 0])] None)]"
proof -
  have h: "int (length (memories (example_manager [example_entry 1 (Some [1, 0])] None))) < 2"
    by (simp add: example_manager_def)
  then have "int (length (memories (example_manager [example_entry 1 (Some [1, 0])] None))) < 2
      \<or> present_embeddings (memories (example_manager [example_entry 1 (Some [1, 0])] None)) = []"
    by (rule disjI1)
  from cluster_memories_single_group[OF this, of dbscan_all_noise "3 / 10"] h
  show ?thesis by simp
qed

text \<open>
  C8 as stated fails when entries without embedding bring the index up to
  \<^verbatim>\<open>min_samples\<close>: with one entry without embedding and one with, and
  \<^verbatim>\<open>min_samples = 2\<close>, there is one candidate, yet DBSCAN is run on it and the result
  is the group of the first live entry alone.
\<close>

theorem cluster_memories_counterexample:
  "int (length (present_embeddings
          (memories (example_manager [example_entry 1 None, example_entry 1 (Some [1, 0])] None)))) < 2
   \<and> cluster_memories dbscan_all_noise (3 / 10) 2
        (example_manager [example_entry 1 None, example_entry 1 (Some [1, 0])] None)
      = Inr [[example_entry 1 None]]
   \<and> cluster_memories dbscan_all_noise (3 / 10) 2
        (example_manager [example_entry 1 None, example_entry 1 (Some [1, 0])] None)
      \<noteq> Inr [memories (example_manager [example_entry 1 None, example_entry 1 (Some [1, 0])] None)]"
  by (simp add: cluster_memories_def example_manager_def present_embeddings_def
      List.map_filter_simps np_array_def example_entry_def dbscan_all_noise_def)

subsection \<open>Statistics of the empty store\<close>

text \<open>
  C9, at the failing input.  On the freshly constructed store \<^verbatim>\<open>get_stats\<close> takes the
  early return, whose dictionary has the three keys \<^verbatim>\<open>total_memories\<close>,
  \<^verbatim>\<open>total_size_bytes\<close> and \<^verbatim>\<open>average_importance\<close> (all 0) and no
  \<^verbatim>\<open>compression_enabled\<close> key, although the claim, and the repository's own
  \<^verbatim>\<open>test_memory_stats\<close>, expect that key on the empty store.
\<close>

theorem get_stats_empty_lacks_compression_enabled:
  "map_of (get_stats avail (init_manager c r model)) ''compression_enabled'' = None
   \<and> map_of (get_stats avail (init_manager c r model)) ''total_memories'' = Some (IntStat 0)
   \<and> map_of (get_stats avail (init_manager c r model)) ''total_size_bytes'' = Some (IntStat 0)
   \<and> map_of (get_stats avail (init_manager c r model)) ''average_importance'' = Some (IntStat 0)"
  by (simp add: get_stats_def init_manager_def)

end
